theory Spec2Isabelle
  imports Complex_Main
begin

section \<open>Python values the program works on\<close>

text \<open>
  The exceptions the modelled code can raise. \<open>TypeError\<close> comes from subtracting an
  offset-naive and an offset-aware datetime, \<open>OSError\<close> from \<open>open\<close>, \<open>ValueError\<close> from
  the calendar parser, \<open>CsvError\<close> (\<open>csv.Error\<close>) from the delimited-text reader.
\<close>

datatype py_error = TypeError | OSError | ValueError | CsvError

subsection \<open>Decimal formatting\<close>

definition digit_char :: "nat \<Rightarrow> char" where
  "digit_char n = ''0123456789'' ! (n mod 10)"

text \<open>\<open>str(n)\<close> for a non-negative Python int.\<close>

fun str_nat :: "nat \<Rightarrow> string" where
  "str_nat n = (if n < 10 then [digit_char n] else str_nat (n div 10) @ [digit_char n])"

declare str_nat.simps [simp del]

text \<open>\<open>str(i)\<close> for a Python int.\<close>

definition str_int :: "int \<Rightarrow> string" where
  "str_int i = (if i < 0 then CHR ''-'' # str_nat (nat (- i)) else str_nat (nat i))"

text \<open>The format \<open>%0wd\<close> applied to a non-negative int: zero-padded to at least \<open>w\<close> digits.\<close>

definition zero_pad :: "nat \<Rightarrow> nat \<Rightarrow> string" where
  "zero_pad w n = (let s = str_nat n in replicate (w - length s) CHR ''0'' @ s)"

subsection \<open>datetime.date, datetime.time, datetime.datetime\<close>

text \<open>
  The fields of a Python \<open>date\<close>. Python keeps \<open>1 \<le> year \<le> 9999\<close>, \<open>1 \<le> month \<le> 12\<close> and
  \<open>1 \<le> day \<le> days in month\<close>; \<open>valid_date\<close> states it.
\<close>

record date =
  year :: nat
  month :: nat
  day :: nat

text \<open>
  The naive time-of-day that \<open>datetime.time()\<close> returns. The DATE-TIME values of a
  calendar document have whole seconds (\<open>YYYYMMDDTHHMMSS\<close>), so the microsecond field
  of every value the loader yields is 0 and is not carried.
\<close>

record time =
  hour :: nat
  minute :: nat
  second :: nat

text \<open>
  The \<open>tzinfo\<close> attribute of a datetime: \<open>tz_ident\<close> is the identity of the tzinfo object
  (what Python's \<open>is\<close> compares), \<open>tz_utcoffset\<close> is what that object's \<open>utcoffset\<close> returns
  for the datetime carrying it, in seconds (\<open>None\<close> when it gives no offset).
\<close>

record tzinfo =
  tz_ident :: nat
  tz_utcoffset :: "int option"

record datetime =
  dt_date :: date
  dt_time :: time
  dt_tzinfo :: "tzinfo option"

definition is_leap :: "nat \<Rightarrow> bool" where
  "is_leap y \<longleftrightarrow> y mod 4 = 0 \<and> (y mod 100 \<noteq> 0 \<or> y mod 400 = 0)"

definition days_in_month :: "nat \<Rightarrow> nat \<Rightarrow> nat" where
  "days_in_month y m =
     (if m = 2 \<and> is_leap y then 29
      else [0, 31, 28, 31, 30, 31, 30, 31, 31, 30, 31, 30, 31] ! m)"

definition valid_date :: "date \<Rightarrow> bool" where
  "valid_date d \<longleftrightarrow> 1 \<le> year d \<and> year d \<le> 9999 \<and> 1 \<le> month d \<and> month d \<le> 12
     \<and> 1 \<le> day d \<and> day d \<le> days_in_month (year d) (month d)"

definition valid_time :: "time \<Rightarrow> bool" where
  "valid_time t \<longleftrightarrow> hour t < 24 \<and> minute t < 60 \<and> second t < 60"

text \<open>\<open>datetime.min.time()\<close>: midnight.\<close>

definition time_min :: time where
  "time_min = \<lparr>hour = 0, minute = 0, second = 0\<rparr>"

text \<open>\<open>datetime.combine(d, t)\<close> for a naive time \<open>t\<close>: a naive datetime.\<close>

definition combine :: "date \<Rightarrow> time \<Rightarrow> datetime" where
  "combine d t = \<lparr>dt_date = d, dt_time = t, dt_tzinfo = None\<rparr>"

text \<open>
  \<open>date.toordinal()\<close>: the proleptic Gregorian ordinal, as \<open>_ymd2ord\<close> computes it. The
  month indexes the table \<open>_DAYS_BEFORE_MONTH\<close>, whose entry 0 is a placeholder; the month
  of a Python date is in 1..12.
\<close>

definition days_before_year :: "nat \<Rightarrow> int" where
  "days_before_year y =
     (let y1 = int y - 1 in y1 * 365 + y1 div 4 - y1 div 100 + y1 div 400)"

definition days_before_month :: "nat \<Rightarrow> nat \<Rightarrow> int" where
  "days_before_month y m =
     [- 1, 0, 31, 59, 90, 120, 151, 181, 212, 243, 273, 304, 334] ! m
       + (if 2 < m \<and> is_leap y then 1 else 0)"

definition toordinal :: "date \<Rightarrow> int" where
  "toordinal d = days_before_year (year d) + days_before_month (year d) (month d) + int (day d)"

text \<open>\<open>datetime.utcoffset()\<close>: \<open>None\<close> without a tzinfo, else what the tzinfo says.\<close>

definition utcoffset :: "datetime \<Rightarrow> int option" where
  "utcoffset dt = (case dt_tzinfo dt of None \<Rightarrow> None | Some tz \<Rightarrow> tz_utcoffset tz)"

text \<open>
  The timedelta that ignores time zones: days, seconds of the day, as whole seconds
  (\<open>timedelta.total_seconds()\<close> of it, an integer here).
\<close>

definition base_delta :: "datetime \<Rightarrow> datetime \<Rightarrow> int" where
  "base_delta a b =
     (toordinal (dt_date a) - toordinal (dt_date b)) * 86400
       + (int (second (dt_time a)) + int (minute (dt_time a)) * 60 + int (hour (dt_time a)) * 3600)
       - (int (second (dt_time b)) + int (minute (dt_time b)) * 60 + int (hour (dt_time b)) * 3600)"

text \<open>
  \<open>a - b\<close> on datetimes (\<open>datetime.__sub__\<close>), as total seconds. The same tzinfo object on
  both sides: no adjustment. Otherwise the offsets are compared; exactly one missing
  raises \<open>TypeError\<close> (cannot mix naive and timezone-aware time).
\<close>

definition sub_datetime :: "datetime \<Rightarrow> datetime \<Rightarrow> py_error + int" where
  "sub_datetime a b =
     (if map_option tz_ident (dt_tzinfo a) = map_option tz_ident (dt_tzinfo b)
      then Inr (base_delta a b)
      else (case (utcoffset a, utcoffset b) of
              (None, None) \<Rightarrow> Inr (base_delta a b)
            | (Some myoff, Some otoff) \<Rightarrow> Inr (base_delta a b + otoff - myoff)
            | _ \<Rightarrow> Inl TypeError))"

text \<open>\<open>date.isoformat()\<close>: \<open>%04d-%02d-%02d\<close>.\<close>

definition isoformat :: "date \<Rightarrow> string" where
  "isoformat d = zero_pad 4 (year d) @ ''-'' @ zero_pad 2 (month d) @ ''-'' @ zero_pad 2 (day d)"

text \<open>\<open>time.strftime("%H:%M")\<close>.\<close>

definition strftime_HM :: "time \<Rightarrow> string" where
  "strftime_HM t = zero_pad 2 (hour t) @ '':'' @ zero_pad 2 (minute t)"

subsection \<open>Calendar components\<close>

text \<open>
  The \<open>dt\<close> attribute of a DTSTART or DTEND property: a \<open>date\<close> or a \<open>datetime\<close>
  (\<open>isinstance(x.dt, datetime)\<close> tells them apart).
\<close>

datatype dt_value = DateValue date | DatetimeValue datetime

text \<open>The properties of a component that the program reads with \<open>get\<close>.\<close>

record props =
  DTSTART :: "dt_value option"
  DTEND :: "dt_value option"
  SUMMARY :: "string option"

text \<open>A component of the parsed calendar: its name, properties and subcomponents.\<close>

datatype component =
  Component (comp_name: string) (comp_props: props) (subcomponents: "component list")

text \<open>
  \<open>Component.walk(name)\<close>: the component itself when its name matches, then the walks of
  its subcomponents, in order.
\<close>

fun walk :: "string \<Rightarrow> component \<Rightarrow> component list" where
  "walk name (Component n p subs) =
     (if n = name then [Component n p subs] else []) @ concat (map (walk name) subs)"

section \<open>The program\<close>

type_synonym row = "string \<times> string \<times> string \<times> string \<times> int"

text \<open>
  Lines 36 to 44 of \<open>event_to_row\<close>: a datetime is kept, a plain date is combined with
  midnight.
\<close>

definition to_datetime :: "dt_value \<Rightarrow> datetime" where
  "to_datetime v = (case v of DatetimeValue dt \<Rightarrow> dt | DateValue d \<Rightarrow> combine d time_min)"

text \<open>
  \<open>event_to_row\<close>: \<open>Inr None\<close> is the return value \<open>None\<close>, \<open>Inr (Some row)\<close> a row, \<open>Inl\<close> an
  exception.
\<close>

definition event_to_row :: "component \<Rightarrow> py_error + row option" where
  "event_to_row event =
     (case (DTSTART (comp_props event), DTEND (comp_props event)) of
        (Some dtstart, Some dtend) \<Rightarrow>
          (let start_dt = to_datetime dtstart;
               end_dt = to_datetime dtend
           in if dt_time start_dt = time_min \<and> dt_time end_dt = time_min then Inr None
              else
                (let date_str = isoformat (dt_date start_dt);
                     start_str = strftime_HM (dt_time start_dt);
                     end_str = strftime_HM (dt_time end_dt);
                     summary = (case SUMMARY (comp_props event) of None \<Rightarrow> '''' | Some s \<Rightarrow> s)
                 in (case sub_datetime end_dt start_dt of
                       Inl err \<Rightarrow> Inl err
                     | Inr total_seconds \<Rightarrow>
                         Inr (Some (date_str, start_str, end_str, summary, total_seconds div 60)))))
      | _ \<Rightarrow> Inr None)"

text \<open>
  The loop of \<open>parse_events\<close>: a row is appended when \<open>event_to_row\<close> returns one (a
  5-tuple is never falsy); an exception ends the loop.
\<close>

fun parse_events_loop :: "component list \<Rightarrow> row list \<Rightarrow> py_error + row list" where
  "parse_events_loop [] rows = Inr rows"
| "parse_events_loop (component # rest) rows =
     (case event_to_row component of
        Inl err \<Rightarrow> Inl err
      | Inr None \<Rightarrow> parse_events_loop rest rows
      | Inr (Some row) \<Rightarrow> parse_events_loop rest (rows @ [row]))"

definition parse_events :: "component \<Rightarrow> py_error + row list" where
  "parse_events cal = parse_events_loop (walk ''VEVENT'' cal) []"

subsection \<open>The delimited-text writer\<close>

abbreviation delimiter :: char where "delimiter \<equiv> CHR '',''"
abbreviation quotechar :: char where "quotechar \<equiv> CHR 0x22"
abbreviation CR :: char where "CR \<equiv> CHR 0x0D"
abbreviation LF :: char where "LF \<equiv> CHR 0x0A"

text \<open>
  \<open>csv.writer(f)\<close> uses the dialect \<open>excel\<close>: delimiter comma, quote character \<open>"\<close>,
  doubled quotes, line terminator CR LF, minimal quoting, no escape character. A
  character makes its field quoted when it is the delimiter, the quote character or
  a character of the line terminator.
\<close>

definition special_char :: "char \<Rightarrow> bool" where
  "special_char c \<longleftrightarrow> c = delimiter \<or> c = quotechar \<or> c = CR \<or> c = LF"

text \<open>The data of a quoted field: every quote character is written twice.\<close>

fun double_quotes :: "string \<Rightarrow> string" where
  "double_quotes [] = []"
| "double_quotes (c # cs) = (if c = quotechar then [c, c] else [c]) @ double_quotes cs"

text \<open>One field as the writer emits it (\<open>join_append\<close>).\<close>

definition join_append :: "string \<Rightarrow> string" where
  "join_append field =
     (if list_ex special_char field then quotechar # double_quotes field @ [quotechar]
      else field)"

fun join_fields :: "string list \<Rightarrow> string" where
  "join_fields [] = []"
| "join_fields [f] = join_append f"
| "join_fields (f # g # fs) = join_append f @ [delimiter] @ join_fields (g # fs)"

text \<open>
  \<open>writer.writerow(fields)\<close>: the text it writes. A record that is a single empty field
  is written as a pair of quotes.
\<close>

definition writerow :: "string list \<Rightarrow> string" where
  "writerow fs = (if fs = [[]] then [quotechar, quotechar] else join_fields fs) @ [CR, LF]"

text \<open>The writer turns a row's fields into text with \<open>str\<close>.\<close>

fun row_fields :: "row \<Rightarrow> string list" where
  "row_fields (date_str, start_str, end_str, summary, duration) =
     [date_str, start_str, end_str, summary, str_int duration]"

definition header :: "string list" where
  "header = [''Date'', ''Start'', ''End'', ''Summary'', ''Duration(min)'']"

subsection \<open>Files and standard output\<close>

text \<open>
  The part of the outside world the program touches: the text files by path, which
  paths can be opened for writing, and the lines printed so far.
\<close>

record world =
  files :: "string \<Rightarrow> string option"
  writable :: "string \<Rightarrow> bool"
  stdout :: "string list"

text \<open>\<open>open(path, "w")\<close>: fails, or leaves the file at that path empty.\<close>

definition open_w :: "string \<Rightarrow> world \<Rightarrow> py_error + world" where
  "open_w path w =
     (if writable w path then Inr (w\<lparr>files := (files w)(path \<mapsto> [])\<rparr>) else Inl OSError)"

text \<open>Writing to the file opened at \<open>path\<close>: the text is added at the end.\<close>

definition file_write :: "string \<Rightarrow> string \<Rightarrow> world \<Rightarrow> world" where
  "file_write path s w =
     w\<lparr>files := (files w)(path \<mapsto> (case files w path of None \<Rightarrow> s | Some old \<Rightarrow> old @ s))\<rparr>"

definition print :: "string \<Rightarrow> world \<Rightarrow> world" where
  "print line w = w\<lparr>stdout := stdout w @ [line]\<rparr>"

text \<open>\<open>writer.writerows(rows)\<close>: one \<open>writerow\<close> per row, in order.\<close>

fun writerows :: "string \<Rightarrow> row list \<Rightarrow> world \<Rightarrow> world" where
  "writerows path [] w = w"
| "writerows path (r # rs) w = writerows path rs (file_write path (writerow (row_fields r)) w)"

text \<open>\<open>write_csv\<close>: the only exception is that of \<open>open\<close>, before anything is written.\<close>

definition write_csv :: "row list \<Rightarrow> string \<Rightarrow> world \<Rightarrow> py_error + world" where
  "write_csv rows out_path w =
     (case open_w out_path w of
        Inl err \<Rightarrow> Inl err
      | Inr w1 \<Rightarrow> Inr (writerows out_path rows (file_write out_path (writerow header) w1)))"

text \<open>
  \<open>load_calendar\<close>: \<open>open\<close> fails on a path with no file; the parser \<open>Calendar.from_ical\<close>
  belongs to the calendar library and is a parameter.
\<close>

definition load_calendar ::
  "(string \<Rightarrow> py_error + component) \<Rightarrow> string \<Rightarrow> world \<Rightarrow> py_error + component" where
  "load_calendar from_ical ics_path w =
     (case files w ics_path of None \<Rightarrow> Inl OSError | Some text \<Rightarrow> from_ical text)"

text \<open>
  \<open>main\<close> after argument parsing: \<open>Inr\<close> is a normal exit with the world it leaves,
  \<open>Inl\<close> an uncaught exception. Every exception is raised before any effect.
\<close>

definition main ::
  "(string \<Rightarrow> py_error + component) \<Rightarrow> string \<Rightarrow> string \<Rightarrow> world \<Rightarrow> py_error + world" where
  "main from_ical ics_file output w =
     (case load_calendar from_ical ics_file w of
        Inl err \<Rightarrow> Inl err
      | Inr cal \<Rightarrow>
          (case parse_events cal of
             Inl err \<Rightarrow> Inl err
           | Inr rows \<Rightarrow>
               if rows = [] then Inr (print (''Warning: No events found in '' @ ics_file) w)
               else
                 (case write_csv rows output w of
                    Inl err \<Rightarrow> Inl err
                  | Inr w1 \<Rightarrow>
                      Inr (print (''Converted '' @ str_nat (length rows) @ '' events to '' @ output)
                             w1))))"

section \<open>Reading the written file back\<close>

text \<open>
  The program never reads its output; the round trip is stated against the reader
  that belongs to the writer, \<open>csv.reader\<close> with the same dialect over a file opened
  with \<open>newline=''\<close>. Its parser is a state machine fed one character at a time and an
  end-of-line event (\<open>None\<close>) after each line of the file. With no escape character
  only six of its states can be reached. The reader's configurable limit on the
  length of a field is not modelled.
\<close>

datatype parser_state =
  START_RECORD | START_FIELD | IN_FIELD | IN_QUOTED_FIELD | QUOTE_IN_QUOTED_FIELD | EAT_CRNL

record reader =
  r_state :: parser_state
  r_field :: string
  r_fields :: "string list"
  r_records :: "string list list"

definition parse_save_field :: "reader \<Rightarrow> reader" where
  "parse_save_field r = r\<lparr>r_fields := r_fields r @ [r_field r], r_field := []\<rparr>"

definition parse_add_char :: "reader \<Rightarrow> char \<Rightarrow> reader" where
  "parse_add_char r c = r\<lparr>r_field := r_field r @ [c]\<rparr>"

text \<open>The case \<open>START_FIELD\<close>, which \<open>START_RECORD\<close> falls through to on a normal character.\<close>

definition start_field :: "reader \<Rightarrow> char option \<Rightarrow> reader" where
  "start_field r c =
     (case c of
        None \<Rightarrow> (parse_save_field r)\<lparr>r_state := START_RECORD\<rparr>
      | Some ch \<Rightarrow>
          if ch = LF \<or> ch = CR then (parse_save_field r)\<lparr>r_state := EAT_CRNL\<rparr>
          else if ch = quotechar then r\<lparr>r_state := IN_QUOTED_FIELD\<rparr>
          else if ch = delimiter then (parse_save_field r)\<lparr>r_state := START_FIELD\<rparr>
          else (parse_add_char r ch)\<lparr>r_state := IN_FIELD\<rparr>)"

definition parse_process_char :: "reader \<Rightarrow> char option \<Rightarrow> py_error + reader" where
  "parse_process_char r c =
     (case r_state r of
        START_RECORD \<Rightarrow>
          (case c of
             None \<Rightarrow> Inr r
           | Some ch \<Rightarrow>
               if ch = LF \<or> ch = CR then Inr (r\<lparr>r_state := EAT_CRNL\<rparr>)
               else Inr (start_field r c))
      | START_FIELD \<Rightarrow> Inr (start_field r c)
      | IN_FIELD \<Rightarrow>
          (case c of
             None \<Rightarrow> Inr ((parse_save_field r)\<lparr>r_state := START_RECORD\<rparr>)
           | Some ch \<Rightarrow>
               if ch = LF \<or> ch = CR then Inr ((parse_save_field r)\<lparr>r_state := EAT_CRNL\<rparr>)
               else if ch = delimiter then Inr ((parse_save_field r)\<lparr>r_state := START_FIELD\<rparr>)
               else Inr (parse_add_char r ch))
      | IN_QUOTED_FIELD \<Rightarrow>
          (case c of
             None \<Rightarrow> Inr r
           | Some ch \<Rightarrow>
               if ch = quotechar then Inr (r\<lparr>r_state := QUOTE_IN_QUOTED_FIELD\<rparr>)
               else Inr (parse_add_char r ch))
      | QUOTE_IN_QUOTED_FIELD \<Rightarrow>
          (case c of
             None \<Rightarrow> Inr ((parse_save_field r)\<lparr>r_state := START_RECORD\<rparr>)
           | Some ch \<Rightarrow>
               if ch = quotechar then Inr ((parse_add_char r ch)\<lparr>r_state := IN_QUOTED_FIELD\<rparr>)
               else if ch = delimiter then Inr ((parse_save_field r)\<lparr>r_state := START_FIELD\<rparr>)
               else if ch = LF \<or> ch = CR then Inr ((parse_save_field r)\<lparr>r_state := EAT_CRNL\<rparr>)
               else Inr ((parse_add_char r ch)\<lparr>r_state := IN_FIELD\<rparr>))
      | EAT_CRNL \<Rightarrow>
          (case c of
             None \<Rightarrow> Inr (r\<lparr>r_state := START_RECORD\<rparr>)
           | Some ch \<Rightarrow> if ch = LF \<or> ch = CR then Inr r else Inl CsvError))"

text \<open>The reader hands the fields over as one record and starts afresh.\<close>

definition emit_record :: "reader \<Rightarrow> reader" where
  "emit_record r = r\<lparr>r_records := r_records r @ [r_fields r], r_fields := []\<rparr>"

text \<open>
  After the last character of a line the parser gets the end-of-line event; the record
  is complete when that leaves it in \<open>START_RECORD\<close>, else the next line continues it.
\<close>

definition end_of_line :: "reader \<Rightarrow> py_error + reader" where
  "end_of_line r =
     (case parse_process_char r None of
        Inl err \<Rightarrow> Inl err
      | Inr r1 \<Rightarrow> Inr (if r_state r1 = START_RECORD then emit_record r1 else r1))"

text \<open>
  Where the file object ends a line: after LF, after CR that no LF follows, and at the
  end of the text.
\<close>

definition line_ends :: "char \<Rightarrow> string \<Rightarrow> bool" where
  "line_ends c rest \<longleftrightarrow>
     c = LF \<or> (c = CR \<and> (case rest of [] \<Rightarrow> True | d # _ \<Rightarrow> d \<noteq> LF)) \<or> rest = []"

fun reader_run :: "reader \<Rightarrow> string \<Rightarrow> py_error + reader" where
  "reader_run r [] = Inr r"
| "reader_run r (c # cs) =
     (case parse_process_char r (Some c) of
        Inl err \<Rightarrow> Inl err
      | Inr r1 \<Rightarrow>
          if line_ends c cs
          then (case end_of_line r1 of Inl err \<Rightarrow> Inl err | Inr r2 \<Rightarrow> reader_run r2 cs)
          else reader_run r1 cs)"

text \<open>
  At the end of the input a field in progress, or an open quoted field, is saved and
  the record handed over.
\<close>

definition end_of_input :: "reader \<Rightarrow> reader" where
  "end_of_input r =
     (if r_field r \<noteq> [] \<or> r_state r = IN_QUOTED_FIELD then emit_record (parse_save_field r)
      else r)"

definition reader_init :: reader where
  "reader_init = \<lparr>r_state = START_RECORD, r_field = [], r_fields = [], r_records = []\<rparr>"

text \<open>\<open>list(csv.reader(f))\<close> on a file with the given text.\<close>

definition csv_reader :: "string \<Rightarrow> py_error + string list list" where
  "csv_reader text =
     (case reader_run reader_init text of
        Inl err \<Rightarrow> Inl err
      | Inr r \<Rightarrow> Inr (r_records (end_of_input r)))"

section \<open>Example inputs\<close>

definition mk_date :: "nat \<Rightarrow> nat \<Rightarrow> nat \<Rightarrow> date" where
  "mk_date y m d = \<lparr>year = y, month = m, day = d\<rparr>"

definition mk_time :: "nat \<Rightarrow> nat \<Rightarrow> nat \<Rightarrow> time" where
  "mk_time h m s = \<lparr>hour = h, minute = m, second = s\<rparr>"

text \<open>A naive datetime value, and one that carries UTC (offset 0) as tzinfo object 1.\<close>

definition naive :: "nat \<Rightarrow> nat \<Rightarrow> nat \<Rightarrow> nat \<Rightarrow> nat \<Rightarrow> nat \<Rightarrow> dt_value" where
  "naive y mo d h mi s = DatetimeValue (combine (mk_date y mo d) (mk_time h mi s))"

definition aware_utc :: "nat \<Rightarrow> nat \<Rightarrow> nat \<Rightarrow> nat \<Rightarrow> nat \<Rightarrow> nat \<Rightarrow> dt_value" where
  "aware_utc y mo d h mi s =
     DatetimeValue \<lparr>dt_date = mk_date y mo d, dt_time = mk_time h mi s,
                    dt_tzinfo = Some \<lparr>tz_ident = 1, tz_utcoffset = Some 0\<rparr>\<rparr>"

definition vevent :: "dt_value option \<Rightarrow> dt_value option \<Rightarrow> string option \<Rightarrow> component" where
  "vevent s e summ = Component ''VEVENT'' \<lparr>DTSTART = s, DTEND = e, SUMMARY = summ\<rparr> []"

definition vcalendar :: "component list \<Rightarrow> component" where
  "vcalendar subs = Component ''VCALENDAR'' \<lparr>DTSTART = None, DTEND = None, SUMMARY = None\<rparr> subs"

text \<open>2024-01-01 from 09:00 to 17:30, summary Work.\<close>

definition ex_work :: component where
  "ex_work = vevent (Some (naive 2024 1 1 9 0 0)) (Some (naive 2024 1 1 17 30 0)) (Some ''Work'')"

text \<open>An event of 59.5 minutes.\<close>

definition ex_short :: component where
  "ex_short = vevent (Some (naive 2024 1 1 9 0 0)) (Some (naive 2024 1 1 9 59 30)) None"

text \<open>An event whose end is 59.5 minutes before its start.\<close>

definition ex_backwards :: component where
  "ex_backwards =
     vevent (Some (naive 2024 1 1 10 0 0)) (Some (naive 2024 1 1 9 0 30)) (Some ''Back'')"

text \<open>A timed event from midnight to the next midnight, and an all-day entry.\<close>

definition ex_midnight :: component where
  "ex_midnight =
     vevent (Some (naive 2024 1 1 0 0 0)) (Some (naive 2024 1 2 0 0 0)) (Some ''Night shift'')"

definition ex_allday :: component where
  "ex_allday =
     vevent (Some (DateValue (mk_date 2024 1 1))) (Some (DateValue (mk_date 2024 1 2)))
       (Some ''Holiday'')"

text \<open>An entry with no end.\<close>

definition ex_no_end :: component where
  "ex_no_end = vevent (Some (naive 2024 1 1 9 0 0)) None (Some ''Open'')"

text \<open>A naive start with a timezone-aware end.\<close>

definition ex_mixed :: component where
  "ex_mixed =
     vevent (Some (naive 2024 1 1 9 0 0)) (Some (aware_utc 2024 1 1 17 30 0)) (Some ''Mixed'')"

text \<open>An event in March, placed before the January event in the document.\<close>

definition ex_march :: component where
  "ex_march =
     vevent (Some (naive 2024 3 1 8 0 0)) (Some (naive 2024 3 1 8 15 0)) (Some ''Standup, daily'')"

definition ex_cal :: component where
  "ex_cal = vcalendar [ex_march, ex_allday, ex_work]"

definition ex_cal_allday :: component where
  "ex_cal_allday = vcalendar [ex_allday, ex_midnight]"

definition ex_cal_mixed :: component where
  "ex_cal_mixed = vcalendar [ex_work, ex_mixed]"

text \<open>A world with an input file, in which every path can be written.\<close>

definition ex_world :: world where
  "ex_world =
     \<lparr>files = (\<lambda>p. if p = ''in.ics'' then Some ''BEGIN:VCALENDAR'' else None),
      writable = (\<lambda>p. True),
      stdout = []\<rparr>"

text \<open>
  The entries on which the subtraction of line 56 raises: neither skipped, start and
  end with different tzinfo objects, and exactly one of the two with a UTC offset.
\<close>

definition mixes_naive_aware :: "component \<Rightarrow> bool" where
  "mixes_naive_aware event =
     (case (DTSTART (comp_props event), DTEND (comp_props event)) of
        (Some dtstart, Some dtend) \<Rightarrow>
          (let start_dt = to_datetime dtstart; end_dt = to_datetime dtend
           in \<not> (dt_time start_dt = time_min \<and> dt_time end_dt = time_min)
              \<and> map_option tz_ident (dt_tzinfo end_dt) \<noteq> map_option tz_ident (dt_tzinfo start_dt)
              \<and> (utcoffset end_dt = None) \<noteq> (utcoffset start_dt = None))
      | _ \<Rightarrow> False)"

text \<open>The row an entry gives, if it gives one.\<close>

definition row_of :: "component \<Rightarrow> row option" where
  "row_of event = (case event_to_row event of Inr (Some row) \<Rightarrow> Some row | _ \<Rightarrow> None)"

text \<open>The text of the output file for a list of rows.\<close>

definition csv_text :: "row list \<Rightarrow> string" where
  "csv_text rows =
     ''Date,Start,End,Summary,Duration(min)'' @ [CR, LF]
       @ concat (map (\<lambda>r. join_fields (row_fields r) @ [CR, LF]) rows)"

section \<open>Properties of the extraction\<close>

lemmas ex_defs = ex_work_def ex_short_def ex_backwards_def ex_midnight_def ex_allday_def
  ex_no_end_def ex_mixed_def ex_march_def ex_cal_def ex_cal_allday_def ex_cal_mixed_def
  vevent_def vcalendar_def naive_def aware_utc_def mk_date_def mk_time_def

lemmas dt_defs = event_to_row_def to_datetime_def combine_def time_min_def sub_datetime_def
  base_delta_def toordinal_def days_before_year_def days_before_month_def is_leap_def
  isoformat_def strftime_HM_def zero_pad_def str_nat.simps digit_char_def utcoffset_def Let_def

text \<open>
  C3. An entry whose start or end is absent produces no row: \<open>event_to_row\<close> returns \<open>None\<close>
  without raising, and the loop of \<open>parse_events\<close> goes on with the rows it had.
\<close>

theorem event_to_row_absent:
  "DTSTART (comp_props e) = None \<or> DTEND (comp_props e) = None \<Longrightarrow>
   event_to_row e = Inr None \<and> parse_events_loop (e # rest) rows = parse_events_loop rest rows"
  by (auto simp: event_to_row_def split: option.splits)

theorem event_to_row_absent_witness:
  "(DTSTART (comp_props ex_no_end) = None \<or> DTEND (comp_props ex_no_end) = None)
   \<and> event_to_row ex_no_end = Inr None"
  using event_to_row_absent [of ex_no_end] by (simp add: ex_defs)

text \<open>
  C2. An entry with start and end present, both at midnight after normalisation,
  produces no row. The witness is a timed event from midnight to the next midnight.
\<close>

theorem event_to_row_midnight:
  "DTSTART (comp_props e) = Some st \<Longrightarrow> DTEND (comp_props e) = Some en \<Longrightarrow>
   dt_time (to_datetime st) = time_min \<Longrightarrow> dt_time (to_datetime en) = time_min \<Longrightarrow>
   event_to_row e = Inr None \<and> parse_events_loop (e # rest) rows = parse_events_loop rest rows"
  by (simp add: event_to_row_def)

theorem event_to_row_midnight_witness:
  "DTSTART (comp_props ex_midnight) = Some (naive 2024 1 1 0 0 0)
   \<and> DTEND (comp_props ex_midnight) = Some (naive 2024 1 2 0 0 0)
   \<and> dt_time (to_datetime (naive 2024 1 1 0 0 0)) = time_min
   \<and> dt_time (to_datetime (naive 2024 1 2 0 0 0)) = time_min
   \<and> event_to_row ex_midnight = Inr None"
  using event_to_row_midnight [of ex_midnight "naive 2024 1 1 0 0 0" "naive 2024 1 2 0 0 0"]
  by (simp add: ex_defs to_datetime_def combine_def time_min_def)

text \<open>
  C1. The duration of every row is the floor of the seconds of end minus start divided
  by 60. An event of 59.5 minutes gives 59; an end 59.5 minutes before the start
  gives -60.
\<close>

theorem duration_floor:
  "(event_to_row e = Inr (Some (d, s, t, summ, dur)) \<longrightarrow>
     (\<exists>st en secs. DTSTART (comp_props e) = Some st \<and> DTEND (comp_props e) = Some en
        \<and> sub_datetime (to_datetime en) (to_datetime st) = Inr secs
        \<and> dur = \<lfloor>real_of_int secs / 60\<rfloor>))
   \<and> event_to_row ex_short = Inr (Some (''2024-01-01'', ''09:00'', ''09:59'', '''', 59))
   \<and> event_to_row ex_backwards = Inr (Some (''2024-01-01'', ''10:00'', ''09:00'', ''Back'', - 60))"
proof (intro conjI impI)
  assume a: "event_to_row e = Inr (Some (d, s, t, summ, dur))"
  have fl: "\<And>k::int. \<lfloor>real_of_int k / 60\<rfloor> = k div 60"
    using floor_divide_of_int_eq [where ?'a = real, of _ 60] by simp
  from a show "\<exists>st en secs. DTSTART (comp_props e) = Some st \<and> DTEND (comp_props e) = Some en
        \<and> sub_datetime (to_datetime en) (to_datetime st) = Inr secs
        \<and> dur = \<lfloor>real_of_int secs / 60\<rfloor>"
    by (auto simp: event_to_row_def Let_def fl split: option.splits if_splits sum.splits)
next
  show "event_to_row ex_short = Inr (Some (''2024-01-01'', ''09:00'', ''09:59'', '''', 59))"
    by (simp add: ex_defs dt_defs)
next
  show "event_to_row ex_backwards
          = Inr (Some (''2024-01-01'', ''10:00'', ''09:00'', ''Back'', - 60))"
    by (simp add: ex_defs dt_defs)
qed

theorem duration_floor_witness:
  "event_to_row ex_short = Inr (Some (''2024-01-01'', ''09:00'', ''09:59'', '''', 59))
   \<and> (\<exists>st en secs. DTSTART (comp_props ex_short) = Some st
        \<and> DTEND (comp_props ex_short) = Some en
        \<and> sub_datetime (to_datetime en) (to_datetime st) = Inr secs
        \<and> (59::int) = \<lfloor>real_of_int secs / 60\<rfloor>)"
  using duration_floor [of ex_short "''2024-01-01''" "''09:00''" "''09:59''" "''''" 59]
  by blast

end
